theory Spec2Isabelle
  imports Main "HOL-Library.AList"
begin

section \<open>Errors\<close>

text \<open>
  Every exception that the modelled code can raise is a value of \<open>error\<close>.
  \<open>InvalidOperation\<close>, \<open>DivisionByZero\<close> and \<open>Overflow\<close> are the three signals
  that the default context of Python's decimal module traps. \<open>DivisionUndefined\<close> is the
  signal of \<open>0 / 0\<close>; Python raises it as (a subclass of) InvalidOperation and it is kept
  apart here so that a division by zero can be told from the other invalid operations.
  \<open>KeyError\<close> is a failed dictionary lookup, \<open>AssertionError\<close> a failed \<open>assert\<close>,
  \<open>CacheError\<close> whatever the retrying cache client raises when it gives up.
\<close>

datatype error =
  InvalidOperation | DivisionUndefined | DivisionByZero | Overflow | KeyError | AssertionError
  | CacheError

definition bind_err :: "'e + 'a \<Rightarrow> ('a \<Rightarrow> 'e + 'b) \<Rightarrow> 'e + 'b" where
  "bind_err r f = (case r of Inl e \<Rightarrow> Inl e | Inr x \<Rightarrow> f x)"

section \<open>Decimal numbers under the default context\<close>

text \<open>
  A \<open>Decimal\<close> is a sign (\<open>True\<close> for negative), a coefficient and an exponent, or one of
  the special values. Payloads and signs of NaNs are not represented. The context is
  Python's default one: 28 significant digits, rounding half-even, exponents between
  \<open>Emin\<close> and \<open>Emax\<close>, no clamping.
\<close>

datatype decimal = Fin bool nat int | Inf bool | QNaN | SNaN

definition prec :: nat where "prec = 28"
definition Emax :: int where "Emax = 999999"
definition Emin :: int where "Emin = - 999999"
definition Etiny :: int where "Etiny = Emin - int prec + 1"
definition Etop :: int where "Etop = Emax - int prec + 1"

text \<open>\<open>ndigits c\<close> is \<open>len(str(c))\<close>, the number of digits of the coefficient.\<close>

fun ndigits :: "nat \<Rightarrow> nat" where
  "ndigits n = (if n < 10 then 1 else Suc (ndigits (n div 10)))"

declare ndigits.simps [simp del]

definition signed :: "bool \<Rightarrow> nat \<Rightarrow> int" where
  "signed s c = (if s then - int c else int c)"

definition is_nan :: "decimal \<Rightarrow> bool" where
  "is_nan d = (d = QNaN \<or> d = SNaN)"

definition is_finite :: "decimal \<Rightarrow> bool" where
  "is_finite d = (case d of Fin s c e \<Rightarrow> True | _ \<Rightarrow> False)"

definition is_zero :: "decimal \<Rightarrow> bool" where
  "is_zero d = (case d of Fin s c e \<Rightarrow> c = 0 | _ \<Rightarrow> False)"

definition adjusted :: "nat \<Rightarrow> int \<Rightarrow> int" where
  "adjusted c e = e + int (ndigits c) - 1"

text \<open>
  Rounding half-even when the last \<open>k\<close> digits of coefficient \<open>c\<close> are dropped:
  \<open>rounds_up c k\<close> says that the kept digits are incremented.
\<close>

definition rounds_up :: "nat \<Rightarrow> nat \<Rightarrow> bool" where
  "rounds_up c k =
     (let r = c mod 10 ^ k in
      2 * r > 10 ^ k \<or> (2 * r = 10 ^ k \<and> odd (c div 10 ^ k)))"

text \<open>\<open>Decimal._rescale\<close> on a finite number: the same value at exponent \<open>ex\<close>, rounded.\<close>

definition rescale :: "bool \<Rightarrow> nat \<Rightarrow> int \<Rightarrow> int \<Rightarrow> decimal" where
  "rescale s c e ex =
     (if c = 0 then Fin s 0 ex
      else if e \<ge> ex then Fin s (c * 10 ^ nat (e - ex)) ex
      else
        let digits = int (ndigits c) + e - ex;
            c1 = (if digits < 0 then 1 else c);
            e1 = (if digits < 0 then ex - 1 else e);
            k = nat (ex - e1);
            coeff = c1 div 10 ^ k
        in Fin s (if rounds_up c1 k then coeff + 1 else coeff) ex)"

text \<open>\<open>Decimal._fix\<close> (named \<open>dec_fix\<close> here): round to the context's precision and exponent range.\<close>

definition dec_fix :: "decimal \<Rightarrow> error + decimal" where
  "dec_fix d =
     (case d of
        Fin s c e \<Rightarrow>
          if c = 0 then Inr (Fin s 0 (min (max e Etiny) Emax))
          else
            let exp_min0 = int (ndigits c) + e - int prec in
            if exp_min0 > Etop then Inl Overflow
            else
              let exp_min = max exp_min0 Etiny in
              if e < exp_min then
                let digits = int (ndigits c) + e - exp_min;
                    c1 = (if digits < 0 then 1 else c);
                    e1 = (if digits < 0 then exp_min - 1 else e);
                    k = nat (exp_min - e1);
                    coeff = c1 div 10 ^ k;
                    up = rounds_up c1 k;
                    carry = (up \<and> ndigits (coeff + 1) > prec);
                    coeff' = (if up then (if carry then (coeff + 1) div 10 else coeff + 1)
                              else coeff);
                    exp_min' = (if carry then exp_min + 1 else exp_min)
                in if exp_min' > Etop then Inl Overflow else Inr (Fin s coeff' exp_min')
              else Inr d
      | _ \<Rightarrow> Inr d)"

text \<open>
  Addition: the exact sum at the smaller of the two exponents, then \<open>dec_fix\<close>. The sign of
  a zero sum is negative only when both operands are negative.
\<close>

fun dec_add :: "decimal \<Rightarrow> decimal \<Rightarrow> error + decimal" where
  "dec_add SNaN b = Inl InvalidOperation"
| "dec_add a SNaN = Inl InvalidOperation"
| "dec_add QNaN b = Inr QNaN"
| "dec_add a QNaN = Inr QNaN"
| "dec_add (Inf s1) (Inf s2) = (if s1 \<noteq> s2 then Inl InvalidOperation else Inr (Inf s1))"
| "dec_add (Inf s1) b = Inr (Inf s1)"
| "dec_add a (Inf s2) = Inr (Inf s2)"
| "dec_add (Fin s1 c1 e1) (Fin s2 c2 e2) =
     (let e = min e1 e2;
          n = signed s1 (c1 * 10 ^ nat (e1 - e)) + signed s2 (c2 * 10 ^ nat (e2 - e))
      in dec_fix (Fin (if n = 0 then s1 \<and> s2 else n < 0) (nat \<bar>n\<bar>) e))"

definition copy_negate :: "decimal \<Rightarrow> decimal" where
  "copy_negate d = (case d of Fin s c e \<Rightarrow> Fin (\<not> s) c e | Inf s \<Rightarrow> Inf (\<not> s) | _ \<Rightarrow> d)"

definition dec_sub :: "decimal \<Rightarrow> decimal \<Rightarrow> error + decimal" where
  "dec_sub a b = dec_add a (copy_negate b)"

fun dec_mul :: "decimal \<Rightarrow> decimal \<Rightarrow> error + decimal" where
  "dec_mul SNaN b = Inl InvalidOperation"
| "dec_mul a SNaN = Inl InvalidOperation"
| "dec_mul QNaN b = Inr QNaN"
| "dec_mul a QNaN = Inr QNaN"
| "dec_mul (Inf s1) (Inf s2) = Inr (Inf (s1 \<noteq> s2))"
| "dec_mul (Inf s1) (Fin s2 c2 e2) =
     (if c2 = 0 then Inl InvalidOperation else Inr (Inf (s1 \<noteq> s2)))"
| "dec_mul (Fin s1 c1 e1) (Inf s2) =
     (if c1 = 0 then Inl InvalidOperation else Inr (Inf (s1 \<noteq> s2)))"
| "dec_mul (Fin s1 c1 e1) (Fin s2 c2 e2) = dec_fix (Fin (s1 \<noteq> s2) (c1 * c2) (e1 + e2))"

text \<open>
  The loop of \<open>__truediv__\<close> that brings an exact quotient as close to the ideal
  exponent as its trailing zeros allow.
\<close>

function to_ideal :: "nat \<Rightarrow> int \<Rightarrow> int \<Rightarrow> nat \<times> int" where
  "to_ideal coeff ex ideal_exp =
     (if ex < ideal_exp \<and> coeff mod 10 = 0 then to_ideal (coeff div 10) (ex + 1) ideal_exp
      else (coeff, ex))"
  by pat_completeness auto
termination
  by (relation "measure (\<lambda>(coeff, ex, ideal_exp). nat (ideal_exp - ex))") auto

declare to_ideal.simps [simp del]

fun dec_div :: "decimal \<Rightarrow> decimal \<Rightarrow> error + decimal" where
  "dec_div SNaN b = Inl InvalidOperation"
| "dec_div a SNaN = Inl InvalidOperation"
| "dec_div QNaN b = Inr QNaN"
| "dec_div a QNaN = Inr QNaN"
| "dec_div (Inf s1) (Inf s2) = Inl InvalidOperation"
| "dec_div (Inf s1) (Fin s2 c2 e2) = Inr (Inf (s1 \<noteq> s2))"
| "dec_div (Fin s1 c1 e1) (Inf s2) = Inr (Fin (s1 \<noteq> s2) 0 Etiny)"
| "dec_div (Fin s1 c1 e1) (Fin s2 c2 e2) =
     (if c2 = 0 then (if c1 = 0 then Inl DivisionUndefined else Inl DivisionByZero)
      else if c1 = 0 then dec_fix (Fin (s1 \<noteq> s2) 0 (e1 - e2))
      else
        let shift = int (ndigits c2) - int (ndigits c1) + int prec + 1;
            ex = e1 - e2 - shift;
            num = (if shift \<ge> 0 then c1 * 10 ^ nat shift else c1);
            den = (if shift \<ge> 0 then c2 else c2 * 10 ^ nat (- shift));
            coeff = num div den;
            remainder = num mod den
        in if remainder \<noteq> 0
           then dec_fix (Fin (s1 \<noteq> s2) (if coeff mod 5 = 0 then coeff + 1 else coeff) ex)
           else (case to_ideal coeff ex (e1 - e2) of
                   (coeff', ex') \<Rightarrow> dec_fix (Fin (s1 \<noteq> s2) coeff' ex')))"

text \<open>
  Numerical order of two decimals that are not NaN: both coefficients are brought to
  the smaller exponent and compared as signed integers.
\<close>

fun dec_less :: "decimal \<Rightarrow> decimal \<Rightarrow> bool" where
  "dec_less (Inf s1) (Inf s2) = (s1 \<and> \<not> s2)"
| "dec_less (Inf s1) (Fin s2 c2 e2) = s1"
| "dec_less (Fin s1 c1 e1) (Inf s2) = (\<not> s2)"
| "dec_less (Fin s1 c1 e1) (Fin s2 c2 e2) =
     (let e = min e1 e2
      in signed s1 (c1 * 10 ^ nat (e1 - e)) < signed s2 (c2 * 10 ^ nat (e2 - e)))"
| "dec_less a b = False"

text \<open>
  \<open>a < b\<close> and \<open>a > b\<close> on Decimals: an ordering comparison that involves a NaN
  signals InvalidOperation, which the default context raises.
\<close>

definition dec_lt :: "decimal \<Rightarrow> decimal \<Rightarrow> error + bool" where
  "dec_lt a b = (if is_nan a \<or> is_nan b then Inl InvalidOperation else Inr (dec_less a b))"

definition dec_gt :: "decimal \<Rightarrow> decimal \<Rightarrow> error + bool" where
  "dec_gt a b = (if is_nan a \<or> is_nan b then Inl InvalidOperation else Inr (dec_less b a))"

text \<open>Python's built-in \<open>min(a, b)\<close> and \<open>max(a, b)\<close>: the first argument is kept
  unless the second is strictly smaller (larger).\<close>

definition py_min :: "decimal \<Rightarrow> decimal \<Rightarrow> error + decimal" where
  "py_min a b = bind_err (dec_lt b a) (\<lambda>lt. Inr (if lt then b else a))"

definition py_max :: "decimal \<Rightarrow> decimal \<Rightarrow> error + decimal" where
  "py_max a b = bind_err (dec_gt b a) (\<lambda>gt. Inr (if gt then b else a))"

definition of_count :: "nat \<Rightarrow> decimal" where
  "of_count n = Fin False n 0"

definition is_normal :: "decimal \<Rightarrow> bool" where
  "is_normal d = (case d of Fin s c e \<Rightarrow> c \<noteq> 0 \<and> Emin \<le> adjusted c e | _ \<Rightarrow> False)"

text \<open>\<open>Decimal.quantize\<close> with the context's rounding.\<close>

definition quantize :: "decimal \<Rightarrow> decimal \<Rightarrow> error + decimal" where
  "quantize d q =
     (if d = SNaN \<or> q = SNaN then Inl InvalidOperation
      else if d = QNaN \<or> q = QNaN then Inr QNaN
      else case (d, q) of
        (Inf s, Inf s') \<Rightarrow> Inr d
      | (Inf s, _) \<Rightarrow> Inl InvalidOperation
      | (_, Inf s') \<Rightarrow> Inl InvalidOperation
      | (Fin s c e, Fin qs qc qe) \<Rightarrow>
          if \<not> (Etiny \<le> qe \<and> qe \<le> Emax) then Inl InvalidOperation
          else if c = 0 then dec_fix (Fin s 0 qe)
          else if adjusted c e > Emax then Inl InvalidOperation
          else if adjusted c e - qe + 1 > int prec then Inl InvalidOperation
          else (case rescale s c e qe of
                  Fin s' c' e' \<Rightarrow>
                    if adjusted c' e' > Emax then Inl InvalidOperation
                    else if ndigits c' > prec then Inl InvalidOperation
                    else dec_fix (Fin s' c' e')
                | r \<Rightarrow> Inr r)
      | _ \<Rightarrow> Inr d)"

text \<open>\<open>Decimal.normalize\<close>: round to the context, then drop the trailing zeros of the
  coefficient (a zero becomes \<open>0\<close> with exponent 0).\<close>

function strip_zeros :: "nat \<Rightarrow> int \<Rightarrow> int \<Rightarrow> nat \<times> int" where
  "strip_zeros c e exp_max =
     (if e < exp_max \<and> c mod 10 = 0 then strip_zeros (c div 10) (e + 1) exp_max else (c, e))"
  by pat_completeness auto
termination
  by (relation "measure (\<lambda>(c, e, exp_max). nat (exp_max - e))") auto

declare strip_zeros.simps [simp del]

definition normalize_dec :: "decimal \<Rightarrow> error + decimal" where
  "normalize_dec d =
     (if d = SNaN then Inl InvalidOperation
      else if d = QNaN then Inr QNaN
      else bind_err (dec_fix d) (\<lambda>dup.
        case dup of
          Fin s c e \<Rightarrow>
            if c = 0 then Inr (Fin s 0 0)
            else (case strip_zeros c e Emax of (c', e') \<Rightarrow> Inr (Fin s c' e'))
        | _ \<Rightarrow> Inr dup))"

text \<open>
  Modelled from the spec: \<open>remove_exponent\<close> is imported from the agent's \<open>utils\<close>
  module, which is not among the sources. The specification describes it as the step
  that leaves a quantized value with its trailing zeros stripped and without exponent
  notation: a number with a non-negative exponent is written out at exponent 0, and a
  number with a negative exponent loses the trailing zeros of its fraction. Special
  values pass unchanged.
\<close>

definition remove_exponent :: "decimal \<Rightarrow> decimal" where
  "remove_exponent d =
     (case d of
        Fin s c e \<Rightarrow>
          if e \<ge> 0 then Fin s (c * 10 ^ nat e) 0
          else (case strip_zeros c e 0 of (c', e') \<Rightarrow> Fin s c' e')
      | _ \<Rightarrow> d)"

subsection \<open>Conversion to strings\<close>

definition digit_char :: "nat \<Rightarrow> char" where
  "digit_char d = ''0123456789'' ! d"

fun digits_of :: "nat \<Rightarrow> string" where
  "digits_of n =
     (if n < 10 then [digit_char n] else digits_of (n div 10) @ [digit_char (n mod 10)])"

declare digits_of.simps [simp del]

text \<open>\<open>str\<close> of a Decimal (\<open>Decimal.__str__\<close>, scientific notation with capital E).\<close>

definition dec_str :: "decimal \<Rightarrow> string" where
  "dec_str d =
     (case d of
        Inf s \<Rightarrow> (if s then ''-'' else []) @ ''Infinity''
      | QNaN \<Rightarrow> ''NaN''
      | SNaN \<Rightarrow> ''sNaN''
      | Fin s c e \<Rightarrow>
          let ds = digits_of c;
              leftdigits = e + int (length ds);
              dotplace = (if e \<le> 0 \<and> leftdigits > - 6 then leftdigits else 1);
              intpart = (if dotplace \<le> 0 then ''0''
                         else if dotplace \<ge> int (length ds)
                         then ds @ replicate (nat (dotplace - int (length ds))) CHR ''0''
                         else take (nat dotplace) ds);
              fracpart = (if dotplace \<le> 0 then ''.'' @ replicate (nat (- dotplace)) CHR ''0'' @ ds
                          else if dotplace \<ge> int (length ds) then []
                          else ''.'' @ drop (nat dotplace) ds);
              ex = (if leftdigits = dotplace then []
                    else ''E'' @ (if leftdigits - dotplace < 0 then ''-'' else ''+'')
                         @ digits_of (nat \<bar>leftdigits - dotplace\<bar>))
          in (if s then ''-'' else []) @ intpart @ fracpart @ ex)"

section \<open>Clock readings\<close>

text \<open>
  \<open>time.perf_counter()\<close> returns a finite float; \<open>PyFloat m e\<close> is the double
  \<open>m * 2 ^ e\<close>. The difference of two readings is rounded to 53 significant bits, ties
  to even, and \<open>Decimal(float)\<close> converts a float exactly.
\<close>

datatype pyfloat = PyFloat int int

fun bit_length :: "nat \<Rightarrow> nat" where
  "bit_length n = (if n = 0 then 0 else Suc (bit_length (n div 2)))"

declare bit_length.simps [simp del]

definition round53 :: "int \<Rightarrow> int \<Rightarrow> pyfloat" where
  "round53 n e =
     (let a = nat \<bar>n\<bar>; b = bit_length a in
      if b \<le> 53 then PyFloat n e
      else
        let k = b - 53; q = a div 2 ^ k; r = a mod 2 ^ k;
            q' = (if 2 * r > 2 ^ k \<or> (2 * r = 2 ^ k \<and> odd q) then q + 1 else q)
        in PyFloat (if n < 0 then - int q' else int q') (e + int k))"

fun float_sub :: "pyfloat \<Rightarrow> pyfloat \<Rightarrow> pyfloat" where
  "float_sub (PyFloat m1 e1) (PyFloat m2 e2) =
     (let e = min e1 e2
      in round53 (m1 * 2 ^ nat (e1 - e) - m2 * 2 ^ nat (e2 - e)) e)"

text \<open>\<open>as_integer_ratio\<close>: cancel the common powers of two of \<open>m / 2 ^ k\<close>.\<close>

fun reduce2 :: "nat \<Rightarrow> nat \<Rightarrow> nat \<times> nat" where
  "reduce2 m 0 = (m, 0)"
| "reduce2 m (Suc k) =
     (if m = 0 then (0, 0) else if even m then reduce2 (m div 2) k else (m, Suc k))"

fun decimal_from_float :: "pyfloat \<Rightarrow> decimal" where
  "decimal_from_float (PyFloat m e) =
     (if e \<ge> 0 then Fin (m < 0) (nat \<bar>m\<bar> * 2 ^ nat e) 0
      else (case reduce2 (nat \<bar>m\<bar>) (nat (- e)) of
              (n, k) \<Rightarrow> Fin (m < 0) (n * 5 ^ k) (- int k)))"

section \<open>MovingStatistics\<close>

record moving_statistics =
  ms_sum :: decimal
  ms_count :: nat
  ms_min :: decimal
  ms_max :: decimal
  ms_last :: "(decimal \<times> pyfloat) list"

text \<open>\<open>MovingStatistics.__init__\<close>; \<open>now\<close> is the clock reading taken when a seed is
  given.\<close>

definition MovingStatistics_init :: "decimal option \<Rightarrow> pyfloat \<Rightarrow> moving_statistics" where
  "MovingStatistics_init initial_value now =
     (case initial_value of
        None \<Rightarrow> \<lparr>ms_sum = Fin False 0 0, ms_count = 0, ms_min = Inf False, ms_max = Inf True,
                 ms_last = []\<rparr>
      | Some v \<Rightarrow> \<lparr>ms_sum = v, ms_count = 1, ms_min = v, ms_max = v, ms_last = [(v, now)]\<rparr>)"

text \<open>
  \<open>MovingStatistics.update\<close>. The object is mutated field by field, so an exception
  leaves the assignments made before it: \<open>Inl (e, s')\<close> is "raised \<open>e\<close>, the object is
  now \<open>s'\<close>".
\<close>

definition MovingStatistics_update ::
  "decimal \<Rightarrow> pyfloat \<Rightarrow> moving_statistics \<Rightarrow> error \<times> moving_statistics + moving_statistics" where
  "MovingStatistics_update v now s =
     (case dec_add (ms_sum s) v of
        Inl e \<Rightarrow> Inl (e, s)
      | Inr sm \<Rightarrow>
          let s1 = s\<lparr>ms_sum := sm\<rparr> in
          (case py_min (ms_min s1) v of
             Inl e \<Rightarrow> Inl (e, s1)
           | Inr mn \<Rightarrow>
               let s2 = s1\<lparr>ms_min := mn\<rparr> in
               (case py_max (ms_max s2) v of
                  Inl e \<Rightarrow> Inl (e, s2)
                | Inr mx \<Rightarrow>
                    let l = ms_last s2 @ [(v, now)] in
                    Inr (s2\<lparr>ms_max := mx, ms_count := ms_count s2 + 1,
                            ms_last := (if length l > 2 then tl l else l)\<rparr>))))"

definition MovingStatistics_avg :: "moving_statistics \<Rightarrow> error + decimal" where
  "MovingStatistics_avg s = dec_div (ms_sum s) (of_count (ms_count s))"

definition MovingStatistics_diff :: "moving_statistics \<Rightarrow> error + decimal" where
  "MovingStatistics_diff s =
     (if length (ms_last s) = 2
      then dec_sub (fst (ms_last s ! 1)) (fst (ms_last s ! 0))
      else Inr (Fin False 0 0))"

definition MovingStatistics_rate :: "moving_statistics \<Rightarrow> error + decimal" where
  "MovingStatistics_rate s =
     (if length (ms_last s) = 2
      then bind_err (dec_sub (fst (ms_last s ! 1)) (fst (ms_last s ! 0)))
             (\<lambda>d. dec_div d (decimal_from_float
                               (float_sub (snd (ms_last s ! 1)) (snd (ms_last s ! 0)))))
      else Inr (Fin False 0 0))"

section \<open>Measurement and Metric\<close>

datatype MetricTypes = USAGE | RATE | UTILIZATION | ACCUMULATED

record measurement =
  meas_value :: decimal
  meas_capacity :: "decimal option"

text \<open>
  A \<open>Metric\<close>. The current hook is a function of the metric it is attached to; it is
  given the metric's data fields (everything but the hook itself) and may raise.
\<close>

record metric_data =
  key :: string
  metric_type :: MetricTypes
  stats :: moving_statistics
  stats_filter :: "string set"
  current :: decimal
  capacity :: "decimal option"
  unit_hint :: "string option"

record metric = metric_data +
  current_hook :: "(metric_data \<Rightarrow> error + decimal) option"

text \<open>\<open>Metric.update\<close>, with the clock reading that the embedded statistics take.\<close>

definition Metric_update :: "measurement \<Rightarrow> pyfloat \<Rightarrow> metric \<Rightarrow> error \<times> metric + metric" where
  "Metric_update v now m =
     (let m1 = (case meas_capacity v of None \<Rightarrow> m | Some c \<Rightarrow> m\<lparr>capacity := Some c\<rparr>) in
      case MovingStatistics_update (meas_value v) now (stats m1) of
        Inl (e, st) \<Rightarrow> Inl (e, m1\<lparr>stats := st\<rparr>)
      | Inr st \<Rightarrow>
          let m2 = m1\<lparr>stats := st, current := meas_value v\<rparr> in
          (case current_hook m2 of
             None \<Rightarrow> Inr m2
           | Some hook \<Rightarrow>
               (case hook (metric_data.truncate m2) of
                  Inl e \<Rightarrow> Inl (e, m2)
                | Inr c \<Rightarrow> Inr (m2\<lparr>current := c\<rparr>))))"

section \<open>Serialization\<close>

text \<open>
  The values of a serialized \<open>MovingStatistics\<close> are strings, except the version tag.
  \<open>fmt q x\<close> is \<open>str(remove_exponent(x.quantize(q)))\<close>.
\<close>

datatype stat_value = StatStr string | StatInt int

definition fmt :: "decimal \<Rightarrow> decimal \<Rightarrow> error + string" where
  "fmt q x = bind_err (quantize x q) (\<lambda>y. Inr (dec_str (remove_exponent y)))"

definition q3 :: decimal where "q3 = Fin False 0 (- 3)"
definition q_pct :: decimal where "q_pct = Fin False 0 (- 2)"

definition MovingStatistics_to_serializable_dict ::
  "moving_statistics \<Rightarrow> error + (string \<times> stat_value) list" where
  "MovingStatistics_to_serializable_dict s =
     bind_err (fmt q3 (ms_min s)) (\<lambda>mn.
     bind_err (fmt q3 (ms_max s)) (\<lambda>mx.
     bind_err (fmt q3 (ms_sum s)) (\<lambda>sm.
     bind_err (bind_err (MovingStatistics_avg s) (fmt q3)) (\<lambda>av.
     bind_err (bind_err (MovingStatistics_diff s) (fmt q3)) (\<lambda>df.
     bind_err (bind_err (MovingStatistics_rate s) (fmt q3)) (\<lambda>rt.
       Inr [(''min'', StatStr mn), (''max'', StatStr mx), (''sum'', StatStr sm),
            (''avg'', StatStr av), (''diff'', StatStr df), (''rate'', StatStr rt),
            (''version'', StatInt 2)]))))))"

text \<open>
  A serialized \<open>Metric\<close>: the four fixed entries and, in \<open>mv_stats\<close>, the
  \<open>stats.<field>\<close> entries that the filter lets through.
\<close>

record metric_value =
  mv_current :: string
  mv_capacity :: "string option"
  mv_pct :: "string option"
  mv_unit_hint :: "string option"
  mv_stats :: "(string \<times> stat_value) list"

definition pct_of :: "'a metric_data_scheme \<Rightarrow> error + string option" where
  "pct_of m =
     (case capacity m of
        None \<Rightarrow> Inr None
      | Some cap \<Rightarrow>
          if is_normal cap then
            bind_err (dec_gt cap (Fin False 0 0)) (\<lambda>positive.
              if positive then
                bind_err (dec_div (current m) cap) (\<lambda>ratio.
                bind_err (dec_mul ratio (Fin False 100 0)) (\<lambda>p.
                bind_err (fmt q_pct p) (\<lambda>str. Inr (Some str))))
              else Inr None)
          else Inr None)"

definition Metric_to_serializable_dict :: "'a metric_data_scheme \<Rightarrow> error + metric_value" where
  "Metric_to_serializable_dict m =
     bind_err (fmt q3 (current m)) (\<lambda>cur.
     bind_err (case capacity m of None \<Rightarrow> Inr None
               | Some cap \<Rightarrow> bind_err (fmt q3 cap) (\<lambda>str. Inr (Some str))) (\<lambda>cap.
     bind_err (pct_of m) (\<lambda>pct.
     bind_err (MovingStatistics_to_serializable_dict (stats m)) (\<lambda>d.
       Inr \<lparr>mv_current = cur, mv_capacity = cap, mv_pct = pct, mv_unit_hint = unit_hint m,
            mv_stats = map (\<lambda>(k, v). (''stats.'' @ k, v))
                         (filter (\<lambda>(k, v). k \<in> stats_filter m) d)\<rparr>))))"

section \<open>StatContext\<close>

text \<open>
  Identifiers are strings. A Python dictionary is an association list in insertion
  order: \<open>map_of\<close> looks a key up, \<open>AList.update\<close> overwrites the entry of a key that is
  present and appends one for a key that is not.
\<close>

type_synonym metric_key = string
type_synonym device_id = string
type_synonym container_id = string
type_synonym kernel_id = string

record NodeMeasurement =
  nm_key :: metric_key
  nm_type :: MetricTypes
  per_node :: measurement
  per_device :: "(device_id \<times> measurement) list"
  nm_unit_hint :: "string option"
  nm_stats_filter :: "string set"
  nm_current_hook :: "(metric_data \<Rightarrow> error + decimal) option"

record ContainerMeasurement =
  cm_key :: metric_key
  cm_type :: MetricTypes
  per_container :: "(container_id \<times> measurement) list"
  cm_unit_hint :: "string option"
  cm_stats_filter :: "string set"
  cm_current_hook :: "(metric_data \<Rightarrow> error + decimal) option"

text \<open>
  The three tables of a \<open>StatContext\<close>. \<open>ticks\<close> is not a field of the class: it
  counts the samples handled so far, and the clock reading taken while the \<open>n\<close>-th
  sample is handled is \<open>clock n\<close> for the clock the operations are given.
\<close>

record stat_context =
  node_metrics :: "(metric_key \<times> metric) list"
  device_metrics :: "(metric_key \<times> (device_id \<times> metric) list) list"
  kernel_metrics :: "(kernel_id \<times> (metric_key \<times> metric) list) list"
  ticks :: nat

definition StatContext_init :: stat_context where
  "StatContext_init = \<lparr>node_metrics = [], device_metrics = [], kernel_metrics = [], ticks = 0\<rparr>"

text \<open>One entry of the result of \<open>asyncio.gather(..., return_exceptions=True)\<close>.\<close>

datatype 'a task_result = TaskError | TaskOk 'a

text \<open>The constructor call \<open>Metric(key, type, current=..., capacity=..., ...)\<close> with a
  freshly seeded \<open>MovingStatistics\<close>.\<close>

definition Metric_new ::
  "metric_key \<Rightarrow> MetricTypes \<Rightarrow> decimal \<Rightarrow> decimal option \<Rightarrow> string option \<Rightarrow> string set
   \<Rightarrow> (metric_data \<Rightarrow> error + decimal) option \<Rightarrow> pyfloat \<Rightarrow> metric" where
  "Metric_new k ty cur cap uh sf hook now =
     \<lparr>key = k, metric_type = ty, stats = MovingStatistics_init (Some cur) now,
      stats_filter = sf, current = cur, capacity = cap, unit_hint = uh, current_hook = hook\<rparr>"

definition lookup_table :: "('k \<times> ('j \<times> 'v) list) list \<Rightarrow> 'k \<Rightarrow> ('j \<times> 'v) list" where
  "lookup_table t k = (case map_of t k of None \<Rightarrow> [] | Some inner \<Rightarrow> inner)"

text \<open>The node part of one \<open>NodeMeasurement\<close>: create or update \<open>node_metrics[key]\<close>.\<close>

definition merge_node_sample ::
  "(nat \<Rightarrow> pyfloat) \<Rightarrow> NodeMeasurement \<Rightarrow> stat_context \<Rightarrow> error \<times> stat_context + stat_context" where
  "merge_node_sample clock nm s =
     (let now = clock (ticks s); s0 = s\<lparr>ticks := Suc (ticks s)\<rparr> in
      case map_of (node_metrics s0) (nm_key nm) of
        None \<Rightarrow>
          Inr (s0\<lparr>node_metrics := AList.update (nm_key nm)
                 (Metric_new (nm_key nm) (nm_type nm) (meas_value (per_node nm))
                    (meas_capacity (per_node nm)) (nm_unit_hint nm) (nm_stats_filter nm)
                    (nm_current_hook nm) now)
                 (node_metrics s0)\<rparr>)
      | Some m \<Rightarrow>
          (case Metric_update (per_node nm) now m of
             Inl (e, m') \<Rightarrow>
               Inl (e, s0\<lparr>node_metrics := AList.update (nm_key nm) m' (node_metrics s0)\<rparr>)
           | Inr m' \<Rightarrow>
               Inr (s0\<lparr>node_metrics := AList.update (nm_key nm) m' (node_metrics s0)\<rparr>)))"

text \<open>One device sample: create or update \<open>device_metrics[key][dev_id]\<close>.\<close>

definition merge_device_sample ::
  "(nat \<Rightarrow> pyfloat) \<Rightarrow> NodeMeasurement \<Rightarrow> device_id \<Rightarrow> measurement \<Rightarrow> stat_context
   \<Rightarrow> error \<times> stat_context + stat_context" where
  "merge_device_sample clock nm dev_id meas s =
     (let now = clock (ticks s); s0 = s\<lparr>ticks := Suc (ticks s)\<rparr>;
          devs = lookup_table (device_metrics s0) (nm_key nm);
          put = (\<lambda>m. s0\<lparr>device_metrics :=
                    AList.update (nm_key nm) (AList.update dev_id m devs) (device_metrics s0)\<rparr>)
      in case map_of devs dev_id of
           None \<Rightarrow>
             Inr (put (Metric_new (nm_key nm) (nm_type nm) (meas_value meas)
                         (meas_capacity meas) (nm_unit_hint nm) (nm_stats_filter nm)
                         (nm_current_hook nm) now))
         | Some m \<Rightarrow>
             (case Metric_update meas now m of
                Inl (e, m') \<Rightarrow> Inl (e, put m')
              | Inr m' \<Rightarrow> Inr (put m')))"

text \<open>One container sample whose kernel id is known: create or update
  \<open>kernel_metrics[kernel_id][key]\<close>. Both rounds contain this code.\<close>

definition merge_kernel_sample ::
  "(nat \<Rightarrow> pyfloat) \<Rightarrow> ContainerMeasurement \<Rightarrow> kernel_id \<Rightarrow> measurement \<Rightarrow> stat_context
   \<Rightarrow> error \<times> stat_context + stat_context" where
  "merge_kernel_sample clock cm kid meas s =
     (let now = clock (ticks s); s0 = s\<lparr>ticks := Suc (ticks s)\<rparr>;
          kms = lookup_table (kernel_metrics s0) kid;
          put = (\<lambda>m. s0\<lparr>kernel_metrics :=
                    AList.update kid (AList.update (cm_key cm) m kms) (kernel_metrics s0)\<rparr>)
      in case map_of kms (cm_key cm) of
           None \<Rightarrow>
             Inr (put (Metric_new (cm_key cm) (cm_type cm) (meas_value meas)
                         (Some (meas_value meas)) (cm_unit_hint cm) (cm_stats_filter cm)
                         (cm_current_hook cm) now))
         | Some m \<Rightarrow>
             (case Metric_update meas now m of
                Inl (e, m') \<Rightarrow> Inl (e, put m')
              | Inr m' \<Rightarrow> Inr (put m')))"

text \<open>Running a loop body over a list until it raises.\<close>

fun for_each ::
  "('a \<Rightarrow> 's \<Rightarrow> error \<times> 's + 's) \<Rightarrow> 'a list \<Rightarrow> 's \<Rightarrow> error \<times> 's + 's" where
  "for_each body [] s = Inr s"
| "for_each body (x # xs) s =
     (case body x s of Inl r \<Rightarrow> Inl r | Inr s' \<Rightarrow> for_each body xs s')"

text \<open>A gathered result that is an exception is logged and skipped.\<close>

definition skip_failed ::
  "('a \<Rightarrow> 's \<Rightarrow> error \<times> 's + 's) \<Rightarrow> 'a task_result \<Rightarrow> 's \<Rightarrow> error \<times> 's + 's" where
  "skip_failed body r s = (case r of TaskError \<Rightarrow> Inr s | TaskOk x \<Rightarrow> body x s)"

definition merge_node_measure ::
  "(nat \<Rightarrow> pyfloat) \<Rightarrow> NodeMeasurement \<Rightarrow> stat_context \<Rightarrow> error \<times> stat_context + stat_context" where
  "merge_node_measure clock nm s =
     (case merge_node_sample clock nm s of
        Inl r \<Rightarrow> Inl r
      | Inr s' \<Rightarrow>
          for_each (\<lambda>(dev_id, meas). merge_device_sample clock nm dev_id meas)
            (per_device nm) s')"

text \<open>
  The registry maps a kernel id to its entry, of which only the container id matters.
  \<open>kernel_id_map\<close> is the dictionary from container ids to kernel ids that both rounds
  build from it.
\<close>

definition kernel_id_map ::
  "(kernel_id \<times> container_id) list \<Rightarrow> (container_id \<times> kernel_id) list" where
  "kernel_id_map registry = foldl (\<lambda>m (kid, cid). AList.update cid kid m) [] registry"

text \<open>The body of the innermost loop of \<open>collect_node_stat\<close>: the container id is looked
  up without a handler.\<close>

definition node_round_sample ::
  "(nat \<Rightarrow> pyfloat) \<Rightarrow> (container_id \<times> kernel_id) list \<Rightarrow> ContainerMeasurement
   \<Rightarrow> container_id \<times> measurement \<Rightarrow> stat_context \<Rightarrow> error \<times> stat_context + stat_context" where
  "node_round_sample clock kmap cm = (\<lambda>(cid, meas) s.
     case map_of kmap cid of
       None \<Rightarrow> Inl (KeyError, s)
     | Some kid \<Rightarrow> merge_kernel_sample clock cm kid meas s)"

text \<open>
  \<open>collect_node_stat\<close>, the part under the lock, in its three steps: merge the node
  and device samples, drop the kernels that are not in the registry, merge the container
  samples. \<open>node_results\<close> and \<open>ctnr_results\<close> are what the two \<open>asyncio.gather\<close>
  calls return, \<open>registry\<close> is the kernel registry as it is read between them.
\<close>

definition merge_node_results ::
  "(nat \<Rightarrow> pyfloat) \<Rightarrow> NodeMeasurement list task_result list \<Rightarrow> stat_context
   \<Rightarrow> error \<times> stat_context + stat_context" where
  "merge_node_results clock node_results s =
     for_each (skip_failed (for_each (merge_node_measure clock))) node_results s"

definition prune_kernel_metrics ::
  "(kernel_id \<times> container_id) list \<Rightarrow> stat_context \<Rightarrow> stat_context" where
  "prune_kernel_metrics registry s =
     (let used_kernel_ids = set (map fst registry)
      in s\<lparr>kernel_metrics :=
             filter (\<lambda>(kid, t). kid \<in> used_kernel_ids) (kernel_metrics s)\<rparr>)"

definition merge_container_results ::
  "(nat \<Rightarrow> pyfloat) \<Rightarrow> (container_id \<times> kernel_id) list
   \<Rightarrow> ContainerMeasurement list task_result list \<Rightarrow> stat_context
   \<Rightarrow> error \<times> stat_context + stat_context" where
  "merge_container_results clock kmap ctnr_results s =
     for_each (skip_failed (for_each (\<lambda>cm.
         for_each (node_round_sample clock kmap cm) (per_container cm))))
       ctnr_results s"

definition collect_node_stat_locked ::
  "(nat \<Rightarrow> pyfloat) \<Rightarrow> (kernel_id \<times> container_id) list
   \<Rightarrow> NodeMeasurement list task_result list \<Rightarrow> ContainerMeasurement list task_result list
   \<Rightarrow> stat_context \<Rightarrow> error \<times> stat_context + stat_context" where
  "collect_node_stat_locked clock registry node_results ctnr_results s =
     (case merge_node_results clock node_results s of
        Inl r \<Rightarrow> Inl r
      | Inr s1 \<Rightarrow>
          merge_container_results clock (kernel_id_map registry) ctnr_results
            (prune_kernel_metrics registry s1))"

text \<open>
  The body of the innermost loop of \<open>collect_container_stat\<close>. The loop state carries
  the local variable \<open>kernel_id\<close>, which keeps its value when the lookup fails.
\<close>

definition container_round_sample ::
  "(nat \<Rightarrow> pyfloat) \<Rightarrow> (container_id \<times> kernel_id) list \<Rightarrow> container_id
   \<Rightarrow> ContainerMeasurement \<Rightarrow> container_id \<times> measurement
   \<Rightarrow> kernel_id option \<times> stat_context
   \<Rightarrow> error \<times> (kernel_id option \<times> stat_context) + kernel_id option \<times> stat_context" where
  "container_round_sample clock kmap container_id cm = (\<lambda>(cid, meas) (kernel_id, s).
     if cid \<noteq> container_id then Inl (AssertionError, (kernel_id, s))
     else case map_of kmap cid of
       None \<Rightarrow> Inr (kernel_id, s)
     | Some kid \<Rightarrow>
         (case merge_kernel_sample clock cm kid meas s of
            Inl (e, s') \<Rightarrow> Inl (e, (Some kid, s'))
          | Inr s' \<Rightarrow> Inr (Some kid, s')))"

text \<open>
  \<open>collect_container_stat\<close>, the part under the lock, and the value it goes on with: the
  kernel id that was resolved last, if any.
\<close>

definition collect_container_stat_locked ::
  "(nat \<Rightarrow> pyfloat) \<Rightarrow> (kernel_id \<times> container_id) list \<Rightarrow> container_id
   \<Rightarrow> ContainerMeasurement list task_result list \<Rightarrow> stat_context
   \<Rightarrow> error \<times> (kernel_id option \<times> stat_context) + kernel_id option \<times> stat_context" where
  "collect_container_stat_locked clock registry container_id ctnr_results s =
     for_each (skip_failed (for_each (\<lambda>cm.
         for_each (container_round_sample clock (kernel_id_map registry) container_id cm)
           (per_container cm))))
       ctnr_results (None, s)"

subsection \<open>Publishing\<close>

text \<open>The dictionary comprehension \<open>{key: obj.to_serializable_dict() for ...}\<close>.\<close>

fun serialize_table :: "('k \<times> metric) list \<Rightarrow> error + ('k \<times> metric_value) list" where
  "serialize_table [] = Inr []"
| "serialize_table ((k, m) # rest) =
     bind_err (Metric_to_serializable_dict m) (\<lambda>v.
     bind_err (serialize_table rest) (\<lambda>vs. Inr ((k, v) # vs)))"

fun serialize_tables ::
  "('j \<times> ('k \<times> metric) list) list \<Rightarrow> error + ('j \<times> ('k \<times> metric_value) list) list" where
  "serialize_tables [] = Inr []"
| "serialize_tables ((j, t) # rest) =
     bind_err (serialize_table t) (\<lambda>v.
     bind_err (serialize_tables rest) (\<lambda>vs. Inr ((j, v) # vs)))"

record agent_payload =
  node_payload :: "(metric_key \<times> metric_value) list"
  devices_payload :: "(metric_key \<times> (device_id \<times> metric_value) list) list"

text \<open>
  The whole of \<open>collect_node_stat\<close>: after the lock is released the tables are
  serialized and written to the cache. \<open>cache_write\<close> stands for the cache client
  behind \<open>execute_with_retries\<close>; it returns the exception it ends with, if any.
\<close>

definition collect_node_stat ::
  "(nat \<Rightarrow> pyfloat) \<Rightarrow> (kernel_id \<times> container_id) list
   \<Rightarrow> NodeMeasurement list task_result list \<Rightarrow> ContainerMeasurement list task_result list
   \<Rightarrow> (agent_payload \<Rightarrow> (kernel_id \<times> (metric_key \<times> metric_value) list) list \<Rightarrow> error option)
   \<Rightarrow> stat_context \<Rightarrow> error \<times> stat_context + stat_context" where
  "collect_node_stat clock registry node_results ctnr_results cache_write s =
     (case collect_node_stat_locked clock registry node_results ctnr_results s of
        Inl r \<Rightarrow> Inl r
      | Inr s' \<Rightarrow>
          (case serialize_table (node_metrics s') of
             Inl e \<Rightarrow> Inl (e, s')
           | Inr node \<Rightarrow>
               (case serialize_tables (device_metrics s') of
                  Inl e \<Rightarrow> Inl (e, s')
                | Inr devices \<Rightarrow>
                    (case serialize_tables (kernel_metrics s') of
                       Inl e \<Rightarrow> Inl (e, s')
                     | Inr kernels \<Rightarrow>
                         (case cache_write \<lparr>node_payload = node, devices_payload = devices\<rparr>
                                 kernels of
                            Some e \<Rightarrow> Inl (e, s')
                          | None \<Rightarrow> Inr s')))))"

text \<open>
  The whole of \<open>collect_container_stat\<close>: when a kernel id was resolved, its table is
  serialized, written to the cache and returned; otherwise the result is the empty
  dictionary.
\<close>

definition collect_container_stat ::
  "(nat \<Rightarrow> pyfloat) \<Rightarrow> (kernel_id \<times> container_id) list \<Rightarrow> container_id
   \<Rightarrow> ContainerMeasurement list task_result list
   \<Rightarrow> (kernel_id \<Rightarrow> (metric_key \<times> metric_value) list \<Rightarrow> error option)
   \<Rightarrow> stat_context
   \<Rightarrow> error \<times> stat_context + (metric_key \<times> metric) list \<times> stat_context" where
  "collect_container_stat clock registry container_id ctnr_results cache_write s =
     (case collect_container_stat_locked clock registry container_id ctnr_results s of
        Inl (e, (kernel_id, s')) \<Rightarrow> Inl (e, s')
      | Inr (None, s') \<Rightarrow> Inr ([], s')
      | Inr (Some kernel_id, s') \<Rightarrow>
          let metrics = lookup_table (kernel_metrics s') kernel_id in
          (case serialize_table metrics of
             Inl e \<Rightarrow> Inl (e, s')
           | Inr serializable_metrics \<Rightarrow>
               (case cache_write kernel_id serializable_metrics of
                  Some e \<Rightarrow> Inl (e, s')
                | None \<Rightarrow> Inr (metrics, s'))))"

section \<open>Evaluating the decimal arithmetic\<close>

lemmas ctx_defs = prec_def Emax_def Emin_def Etiny_def Etop_def

text \<open>A coefficient of at most 28 digits with an exponent well inside the range is
  left alone by the context.\<close>

lemma dec_fix_small:
  assumes "c \<noteq> 0" "ndigits c \<le> 28" "- 1000026 \<le> e" "e \<le> 999900"
  shows "dec_fix (Fin s c e) = Inr (Fin s c e)"
proof -
  have a: "\<not> int (ndigits c) + e - int prec > Etop"
    using assms by (simp add: ctx_defs)
  have b: "\<not> e < max (int (ndigits c) + e - int prec) Etiny"
    using assms by (simp add: ctx_defs)
  show ?thesis
    using assms(1) by (simp only: dec_fix_def Let_def decimal.case a b if_False)
qed

lemma bind_err_simps [simp]:
  "bind_err (Inr x) f = f x" "bind_err (Inl e) f = Inl e"
  by (simp_all add: bind_err_def)

lemmas fmt_eval = fmt_def quantize_def bind_err_def adjusted_def rescale_def ctx_defs
      ndigits.simps remove_exponent_def strip_zeros.simps dec_str_def
      digits_of.simps digit_char_def

lemma fmt_7: "fmt q3 (Fin False 7 0) = Inr ''7''"
  by (simp add: fmt_eval q3_def dec_fix_small)

lemma fmt_0: "fmt q3 (Fin False 0 0) = Inr ''0''"
  by (simp add: fmt_eval q3_def dec_fix_def)

lemma fmt_100: "fmt q_pct (Fin False 100 0) = Inr ''100''"
  by (simp add: fmt_eval q_pct_def dec_fix_small)

lemma div_7_1: "dec_div (Fin False 7 0) (Fin False 1 0) = Inr (Fin False 7 0)"
  by (simp add: ndigits.simps prec_def to_ideal.simps dec_fix_small)

lemma div_7_7: "dec_div (Fin False 7 0) (Fin False 7 0) = Inr (Fin False 1 0)"
  by (simp add: ndigits.simps prec_def to_ideal.simps dec_fix_small)

lemma mul_1_100: "dec_mul (Fin False 1 0) (Fin False 100 0) = Inr (Fin False 100 0)"
  by (simp add: ndigits.simps dec_fix_small)

lemma init_Some_fields [simp]:
  "ms_sum (MovingStatistics_init (Some v) now) = v"
  "ms_min (MovingStatistics_init (Some v) now) = v"
  "ms_max (MovingStatistics_init (Some v) now) = v"
  "ms_count (MovingStatistics_init (Some v) now) = 1"
  "ms_last (MovingStatistics_init (Some v) now) = [(v, now)]"
  by (simp_all add: MovingStatistics_init_def)

lemma Metric_new_fields [simp]:
  "key (Metric_new k ty cur cap uh sf hook now) = k"
  "metric_type (Metric_new k ty cur cap uh sf hook now) = ty"
  "stats (Metric_new k ty cur cap uh sf hook now) = MovingStatistics_init (Some cur) now"
  "stats_filter (Metric_new k ty cur cap uh sf hook now) = sf"
  "current (Metric_new k ty cur cap uh sf hook now) = cur"
  "capacity (Metric_new k ty cur cap uh sf hook now) = cap"
  "unit_hint (Metric_new k ty cur cap uh sf hook now) = uh"
  "current_hook (Metric_new k ty cur cap uh sf hook now) = hook"
  by (simp_all add: Metric_new_def)

lemma stats_dict_seed_7:
  "MovingStatistics_to_serializable_dict (MovingStatistics_init (Some (Fin False 7 0)) now)
   = Inr [(''min'', StatStr ''7''), (''max'', StatStr ''7''), (''sum'', StatStr ''7''),
          (''avg'', StatStr ''7''), (''diff'', StatStr ''0''), (''rate'', StatStr ''0''),
          (''version'', StatInt 2)]"
proof -
  have avg: "MovingStatistics_avg (MovingStatistics_init (Some (Fin False 7 0)) now)
             = Inr (Fin False 7 0)"
    by (simp only: MovingStatistics_avg_def init_Some_fields of_count_def div_7_1)
  have diff: "MovingStatistics_diff (MovingStatistics_init (Some (Fin False 7 0)) now)
             = Inr (Fin False 0 0)"
    by (simp add: MovingStatistics_diff_def)
  have rate: "MovingStatistics_rate (MovingStatistics_init (Some (Fin False 7 0)) now)
             = Inr (Fin False 0 0)"
    by (simp add: MovingStatistics_rate_def)
  show ?thesis
    by (simp only: MovingStatistics_to_serializable_dict_def init_Some_fields avg diff rate
        fmt_7 fmt_0 bind_err_simps)
qed

lemma pct_seed_7:
  "pct_of (Metric_new k ty (Fin False 7 0) (Some (Fin False 7 0)) uh sf hook now)
   = Inr (Some ''100'')"
proof -
  have n: "is_normal (Fin False 7 0)"
    by (simp add: is_normal_def adjusted_def ndigits.simps ctx_defs)
  have g: "dec_gt (Fin False 7 0) (Fin False 0 0) = Inr True"
    by (simp add: dec_gt_def is_nan_def signed_def)
  show ?thesis
    by (simp only: pct_of_def Metric_new_fields option.case n g if_True div_7_7 mul_1_100
        fmt_100 bind_err_simps)
qed

lemma serialize_seeded_7:
  "Metric_to_serializable_dict
     (Metric_new k ty (Fin False 7 0) (Some (Fin False 7 0)) uh {} hook now)
   = Inr \<lparr>mv_current = ''7'', mv_capacity = Some ''7'', mv_pct = Some ''100'',
          mv_unit_hint = uh, mv_stats = []\<rparr>"
  by (simp only: Metric_to_serializable_dict_def Metric_new_fields pct_seed_7
      stats_dict_seed_7 fmt_7 option.case bind_err_simps) simp

section \<open>Metric.update on the example of the specification\<close>

lemma metric_update_5_7:
  "Metric_update \<lparr>meas_value = Fin False 7 0, meas_capacity = Some (Fin False 10 0)\<rparr> t1
     \<lparr>key = k, metric_type = ty, stats = MovingStatistics_init (Some (Fin False 5 0)) t0,
      stats_filter = sf, current = c0, capacity = cap0, unit_hint = uh, current_hook = None\<rparr>
   = Inr \<lparr>key = k, metric_type = ty,
           stats = \<lparr>ms_sum = Fin False 12 0, ms_count = 2, ms_min = Fin False 5 0,
                    ms_max = Fin False 7 0,
                    ms_last = [(Fin False 5 0, t0), (Fin False 7 0, t1)]\<rparr>,
           stats_filter = sf, current = Fin False 7 0, capacity = Some (Fin False 10 0),
           unit_hint = uh, current_hook = None\<rparr>"
  by (simp add: Metric_update_def MovingStatistics_update_def MovingStatistics_init_def
      py_min_def py_max_def dec_lt_def dec_gt_def is_nan_def bind_err_def signed_def
      dec_fix_small ndigits.simps Let_def)

lemma avg_12_2:
  "MovingStatistics_avg \<lparr>ms_sum = Fin False 12 0, ms_count = 2, ms_min = mn, ms_max = mx,
     ms_last = l\<rparr> = Inr (Fin False 6 0)"
  by (simp add: MovingStatistics_avg_def of_count_def ndigits.simps prec_def to_ideal.simps
      dec_fix_small)

lemma diff_5_7:
  "MovingStatistics_diff \<lparr>ms_sum = sm, ms_count = n, ms_min = mn, ms_max = mx,
     ms_last = [(Fin False 5 0, t0), (Fin False 7 0, t1)]\<rparr> = Inr (Fin False 2 0)"
  by (simp add: MovingStatistics_diff_def dec_sub_def copy_negate_def signed_def ndigits.simps
      dec_fix_small)

text \<open>
  C4. A Metric built around a MovingStatistics seeded with 5 (whatever its key, type,
  filter, unit hint, clock readings, and whatever current value and capacity it was
  constructed with, 5 and 10 included) and without a current hook is updated with the
  measurement of value 7 and capacity 10. The update returns, and afterwards the
  current value is 7, the capacity is 10, and the statistics have min 5, max 7, sum 12,
  avg 6 and diff 2.
\<close>

theorem C4_metric_update_example:
  "(case Metric_update \<lparr>meas_value = Fin False 7 0, meas_capacity = Some (Fin False 10 0)\<rparr> t1
           \<lparr>key = k, metric_type = ty,
            stats = MovingStatistics_init (Some (Fin False 5 0)) t0,
            stats_filter = sf, current = c0, capacity = cap0, unit_hint = uh,
            current_hook = None\<rparr> of
      Inl r \<Rightarrow> False
    | Inr m \<Rightarrow>
        current m = Fin False 7 0 \<and> capacity m = Some (Fin False 10 0) \<and>
        ms_min (stats m) = Fin False 5 0 \<and> ms_max (stats m) = Fin False 7 0 \<and>
        ms_sum (stats m) = Fin False 12 0 \<and>
        MovingStatistics_avg (stats m) = Inr (Fin False 6 0) \<and>
        MovingStatistics_diff (stats m) = Inr (Fin False 2 0))"
  by (simp add: metric_update_5_7 avg_12_2 diff_5_7)

section \<open>Loops and tables\<close>

text \<open>The state an operation leaves behind, whether it returned or raised.\<close>

definition final_state :: "error \<times> 's + 's \<Rightarrow> 's" where
  "final_state r = (case r of Inl (e, s) \<Rightarrow> s | Inr s \<Rightarrow> s)"

lemma final_state_simps [simp]:
  "final_state (Inl (e, s)) = s" "final_state (Inr s) = s"
  by (simp_all add: final_state_def)

lemma for_each_preserves:
  assumes "\<And>x s. x \<in> set xs \<Longrightarrow> P s \<Longrightarrow> P (final_state (body x s))" and "P s"
  shows "P (final_state (for_each body xs s))"
  using assms
proof (induction xs arbitrary: s)
  case Nil
  then show ?case by simp
next
  case (Cons x xs)
  have step: "P (final_state (body x s))"
    using Cons.prems by simp
  show ?case
  proof (cases "body x s")
    case (Inl r)
    with step show ?thesis by simp
  next
    case (Inr s')
    with step have "P s'" by simp
    then have "P (final_state (for_each body xs s'))"
      using Cons.IH Cons.prems(1) by simp
    with Inr show ?thesis by simp
  qed
qed

lemma skip_failed_preserves:
  assumes "\<And>x. r = TaskOk x \<Longrightarrow> P (final_state (body x s))" and "P s"
  shows "P (final_state (skip_failed body r s))"
  using assms by (cases r) (simp_all add: skip_failed_def)

lemma gathered_preserves:
  assumes "\<And>x s. P s \<Longrightarrow> P (final_state (body x s))" and "P s"
  shows "P (final_state (for_each (skip_failed (for_each body)) results s))"
  by (rule for_each_preserves, rule skip_failed_preserves, rule for_each_preserves)
     (use assms in auto)

lemma set_update_subset: "set (AList.update k v al) \<subseteq> insert (k, v) (set al)"
  by (induction al) auto

lemma kernel_id_map_aux:
  "map_of (foldl (\<lambda>m (kid, cid). AList.update cid kid m) acc registry) cid = Some kid
   \<Longrightarrow> map_of acc cid = Some kid \<or> (kid, cid) \<in> set registry"
proof (induction registry arbitrary: acc)
  case Nil
  then show ?case by simp
next
  case (Cons p registry)
  obtain k c where p: "p = (k, c)" by (cases p)
  from Cons.prems p
  have "map_of (foldl (\<lambda>m (kid, cid). AList.update cid kid m) (AList.update c k acc) registry)
          cid = Some kid"
    by simp
  from Cons.IH [OF this]
  show ?case
    using p by (auto simp add: update_conv' split: if_splits)
qed

lemma kernel_id_map_in_registry:
  "map_of (kernel_id_map registry) cid = Some kid \<Longrightarrow> (kid, cid) \<in> set registry"
  using kernel_id_map_aux [of "[]" registry cid kid] by (simp add: kernel_id_map_def)

definition kernel_ids :: "stat_context \<Rightarrow> kernel_id set" where
  "kernel_ids s = fst ` set (kernel_metrics s)"

lemma merge_kernel_sample_ids:
  "kernel_ids (final_state (merge_kernel_sample clock cm kid meas s)) = insert kid (kernel_ids s)"
  by (auto simp add: merge_kernel_sample_def kernel_ids_def Let_def dom_update
      split: option.splits sum.splits)

lemma node_round_sample_ids:
  assumes "kernel_ids s \<subseteq> fst ` set registry"
  shows "kernel_ids (final_state (node_round_sample clock (kernel_id_map registry) cm x s))
         \<subseteq> fst ` set registry"
proof (cases x)
  case (Pair cid meas)
  show ?thesis
  proof (cases "map_of (kernel_id_map registry) cid")
    case None
    with Pair assms show ?thesis by (simp add: node_round_sample_def)
  next
    case (Some kid)
    then have "kid \<in> fst ` set registry"
      using kernel_id_map_in_registry by force
    with Pair Some assms show ?thesis
      by (simp add: node_round_sample_def merge_kernel_sample_ids)
  qed
qed

lemma prune_ids: "kernel_ids (prune_kernel_metrics registry s) \<subseteq> fst ` set registry"
  by (force simp add: prune_kernel_metrics_def kernel_ids_def)

lemma merge_container_results_ids:
  assumes "kernel_ids s \<subseteq> fst ` set registry"
  shows "kernel_ids (final_state (merge_container_results clock (kernel_id_map registry)
           ctnr_results s)) \<subseteq> fst ` set registry"
  unfolding merge_container_results_def
  by (rule gathered_preserves [where P = "\<lambda>s. kernel_ids s \<subseteq> fst ` set registry"],
      rule for_each_preserves) (use assms node_round_sample_ids in auto)

text \<open>
  C2. After a run of \<open>collect_node_stat\<close> every kernel id that is a key of
  \<open>kernel_metrics\<close> is a key of the registry that the round read, whatever
  \<open>kernel_metrics\<close> held before: this holds when the run returns, and also when it
  raises after the node and device samples were merged (in the container samples, in
  the serialization or in the cache write).
\<close>

theorem C2_kernel_metrics_within_registry:
  "(collect_node_stat clock registry node_results ctnr_results cache_write s = Inr s' \<longrightarrow>
      kernel_ids s' \<subseteq> fst ` set registry) \<and>
   (merge_node_results clock node_results s = Inr s_node \<and>
    collect_node_stat clock registry node_results ctnr_results cache_write s = Inl (e, s') \<longrightarrow>
      kernel_ids s' \<subseteq> fst ` set registry)"
proof -
  have locked: "kernel_ids (final_state (collect_node_stat_locked clock registry node_results
                   ctnr_results s)) \<subseteq> fst ` set registry"
    if "merge_node_results clock node_results s = Inr s1" for s1
    using that merge_container_results_ids [OF prune_ids]
    by (simp add: collect_node_stat_locked_def)
  have full: "kernel_ids (final_state (collect_node_stat clock registry node_results
                   ctnr_results cache_write s)) \<subseteq> fst ` set registry"
    if "merge_node_results clock node_results s = Inr s1" for s1
    using locked [OF that]
    by (auto simp add: collect_node_stat_def split: sum.splits option.splits)
  have ok: "\<exists>s1. merge_node_results clock node_results s = Inr s1"
    if "collect_node_stat clock registry node_results ctnr_results cache_write s = Inr s'"
    using that
    by (auto simp add: collect_node_stat_def collect_node_stat_locked_def split: sum.splits)
  show ?thesis
    using full ok by (metis final_state_simps)
qed

section \<open>Example rounds\<close>

definition sample_7 :: measurement where
  "sample_7 = \<lparr>meas_value = Fin False 7 0, meas_capacity = Some (Fin False 10 0)\<rparr>"

definition cm_example :: "(container_id \<times> measurement) list \<Rightarrow> ContainerMeasurement" where
  "cm_example samples =
     \<lparr>cm_key = ''mem'', cm_type = USAGE, per_container = samples, cm_unit_hint = None,
      cm_stats_filter = {}, cm_current_hook = None\<rparr>"

definition clock0 :: "nat \<Rightarrow> pyfloat" where
  "clock0 n = PyFloat (int n) 0"

definition stale_context :: stat_context where
  "stale_context = \<lparr>node_metrics = [], device_metrics = [], kernel_metrics = [(''old'', [])],
     ticks = 0\<rparr>"

definition metric_7 :: "pyfloat \<Rightarrow> metric" where
  "metric_7 now = Metric_new ''mem'' USAGE (Fin False 7 0) (Some (Fin False 7 0)) None {} None now"

lemma kernel_id_map_example [simp]: "kernel_id_map [(''k1'', ''c1'')] = [(''c1'', ''k1'')]"
  by (simp add: kernel_id_map_def)

lemma node_round_locked_example:
  "collect_node_stat_locked clock [(''k1'', ''c1'')] []
     [TaskOk [cm_example [(''c1'', sample_7)]]] stale_context
   = Inr \<lparr>node_metrics = [], device_metrics = [],
          kernel_metrics = [(''k1'', [(''mem'', metric_7 (clock 0))])], ticks = 1\<rparr>"
  by (simp add: collect_node_stat_locked_def merge_node_results_def
      merge_container_results_def prune_kernel_metrics_def skip_failed_def cm_example_def
      node_round_sample_def stale_context_def merge_kernel_sample_def lookup_table_def
      sample_7_def metric_7_def)

lemma node_round_example:
  "collect_node_stat clock [(''k1'', ''c1'')] []
     [TaskOk [cm_example [(''c1'', sample_7)]]] (\<lambda>p k. None) stale_context
   = Inr \<lparr>node_metrics = [], device_metrics = [],
          kernel_metrics = [(''k1'', [(''mem'', metric_7 (clock 0))])], ticks = 1\<rparr>"
  by (simp add: collect_node_stat_def node_round_locked_example metric_7_def
      serialize_seeded_7)

lemma node_round_unknown_container:
  "collect_node_stat clock [(''k1'', ''c1'')] []
     [TaskOk [cm_example [(''c2'', sample_7), (''c1'', sample_7)]]] cache_write stale_context
   = Inl (KeyError, \<lparr>node_metrics = [], device_metrics = [], kernel_metrics = [],
                     ticks = 0\<rparr>)"
  by (simp add: collect_node_stat_def collect_node_stat_locked_def merge_node_results_def
      merge_container_results_def prune_kernel_metrics_def skip_failed_def cm_example_def
      node_round_sample_def stale_context_def)

text \<open>
  The theorem at a context that holds metrics of a kernel \<open>old\<close> that has left the
  registry: a round that merges a sample of container \<open>c1\<close> returns, and a round that
  is given a sample of an unknown container raises after the node phase; in both, the
  stale kernel is gone and the keys are within the registry.
\<close>

theorem C2_witness:
  "collect_node_stat clock0 [(''k1'', ''c1'')] []
     [TaskOk [cm_example [(''c1'', sample_7)]]] (\<lambda>p k. None) stale_context
   = Inr \<lparr>node_metrics = [], device_metrics = [],
          kernel_metrics = [(''k1'', [(''mem'', metric_7 (clock0 0))])], ticks = 1\<rparr> \<and>
   kernel_ids \<lparr>node_metrics = [], device_metrics = [],
          kernel_metrics = [(''k1'', [(''mem'', metric_7 (clock0 0))])], ticks = 1\<rparr>
     \<subseteq> fst ` set [(''k1'', ''c1'')] \<and>
   merge_node_results clock0 [] stale_context = Inr stale_context \<and>
   collect_node_stat clock0 [(''k1'', ''c1'')] []
     [TaskOk [cm_example [(''c2'', sample_7), (''c1'', sample_7)]]] (\<lambda>p k. None) stale_context
   = Inl (KeyError, \<lparr>node_metrics = [], device_metrics = [], kernel_metrics = [],
                     ticks = 0\<rparr>) \<and>
   kernel_ids \<lparr>node_metrics = [], device_metrics = [], kernel_metrics = [], ticks = 0\<rparr>
     \<subseteq> fst ` set [(''k1'', ''c1'')]"
  using C2_kernel_metrics_within_registry [where clock = clock0
      and registry = "[(''k1'', ''c1'')]" and node_results = "[]"
      and ctnr_results = "[TaskOk [cm_example [(''c1'', sample_7)]]]"
      and cache_write = "\<lambda>p k. None" and s = stale_context
      and s' = "\<lparr>node_metrics = [], device_metrics = [],
          kernel_metrics = [(''k1'', [(''mem'', metric_7 (clock0 0))])], ticks = 1\<rparr>"]
    C2_kernel_metrics_within_registry [where clock = clock0
      and registry = "[(''k1'', ''c1'')]" and node_results = "[]"
      and ctnr_results = "[TaskOk [cm_example [(''c2'', sample_7), (''c1'', sample_7)]]]"
      and cache_write = "\<lambda>p k. None" and s = stale_context and s_node = stale_context
      and e = KeyError
      and s' = "\<lparr>node_metrics = [], device_metrics = [], kernel_metrics = [],
                 ticks = 0\<rparr>"]
  by (simp add: node_round_example node_round_unknown_container merge_node_results_def)

end
